theory Spec2Isabelle
  imports Complex_Main "HOL-Library.AList"
begin

section \<open>Documents, collections and the database handle\<close>

text \<open>
  A MongoDB document is a Python dict from field names to BSON values. It is kept as an
  association list (the order of the fields is the order of insertion, as in Python);
  a collection is the list of its documents, and the database maps a collection name to
  its collection (a collection that was never written to is empty).
  Dates are milliseconds since the epoch, as BSON stores them; an ObjectId is the
  list of its bytes.
\<close>

datatype val = VNull | VBool bool | VInt int | VStr string | VOid "int list" | VDate int

type_synonym doc = "(string \<times> val) list"
type_synonym coll = "doc list"
type_synonym database = "string \<Rightarrow> coll"

datatype error =
    HTTPException nat string
  | InvalidId
  | KeyError string
  | ZeroDivisionError
  | RequestValidationError

text \<open>\<^verbatim>\<open>d.get(k, default)\<close> and \<^verbatim>\<open>d[k]\<close> of a Python dict.\<close>

definition get :: "doc \<Rightarrow> string \<Rightarrow> val \<Rightarrow> val" where
  "get d k dflt = (case map_of d k of None \<Rightarrow> dflt | Some v \<Rightarrow> v)"

definition getitem :: "doc \<Rightarrow> string \<Rightarrow> error + val" where
  "getitem d k = (case map_of d k of None \<Rightarrow> Inl (KeyError k) | Some v \<Rightarrow> Inr v)"

text \<open>Python's \<^verbatim>\<open>bool(v)\<close>.\<close>

fun truthy :: "val \<Rightarrow> bool" where
  "truthy VNull = False"
| "truthy (VBool b) = b"
| "truthy (VInt n) = (n \<noteq> 0)"
| "truthy (VStr s) = (s \<noteq> [])"
| "truthy (VOid i) = True"
| "truthy (VDate t) = True"

text \<open>
  \<^verbatim>\<open>db\<close> is imported from the database module and is \<^verbatim>\<open>None\<close> when no database
  is configured; \<^verbatim>\<open>_collection(name)\<close> raises HTTP 500 then.
\<close>

definition collection :: "database option \<Rightarrow> string \<Rightarrow> error + coll" where
  "collection db name =
     (case db of
        None \<Rightarrow> Inl (HTTPException 500 ''Database not configured'')
      | Some d \<Rightarrow> Inr (d name))"

subsection \<open>ObjectId\<close>

text \<open>
  \<^verbatim>\<open>bson.ObjectId(s)\<close> of a string: a string of 24 characters is handed to
  \<^verbatim>\<open>bytes.fromhex\<close> and the bytes it returns are the identifier; any other length,
  and any string \<^verbatim>\<open>bytes.fromhex\<close> refuses, raises \<^verbatim>\<open>InvalidId\<close>.
  \<^verbatim>\<open>bytes.fromhex\<close> reads two hexadecimal digits per byte, in either case, and
  skips ASCII whitespace in front of a byte, so that a string of 24 characters with
  whitespace in it can give fewer than twelve bytes. Two identifiers are equal when
  their bytes are.
\<close>

definition hex_digit :: "char \<Rightarrow> int option" where
  "hex_digit c =
     (let n = (of_char c :: int) in
      if 48 \<le> n \<and> n \<le> 57 then Some (n - 48)
      else if 97 \<le> n \<and> n \<le> 102 then Some (n - 87)
      else if 65 \<le> n \<and> n \<le> 70 then Some (n - 55)
      else None)"

definition isspace :: "char \<Rightarrow> bool" where
  "isspace c = (let n = (of_char c :: int) in (9 \<le> n \<and> n \<le> 13) \<or> n = 32)"

fun fromhex :: "string \<Rightarrow> int list option" where
  "fromhex [] = Some []"
| "fromhex (c # cs) =
     (if isspace c then fromhex cs
      else
        (case hex_digit c of
           None \<Rightarrow> None
         | Some hi \<Rightarrow>
            (case cs of
               [] \<Rightarrow> None
             | c' # cs' \<Rightarrow>
                (case hex_digit c' of
                   None \<Rightarrow> None
                 | Some lo \<Rightarrow>
                    (case fromhex cs' of
                       None \<Rightarrow> None
                     | Some bs \<Rightarrow> Some ((16 * hi + lo) # bs))))))"

definition ObjectId :: "string \<Rightarrow> error + int list" where
  "ObjectId s =
     (if length s = 24
      then (case fromhex s of None \<Rightarrow> Inl InvalidId | Some bs \<Rightarrow> Inr bs)
      else Inl InvalidId)"

subsection \<open>Queries\<close>

text \<open>
  The filters the handlers build: \<^verbatim>\<open>{field: value}\<close> and
  \<^verbatim>\<open>{field: {"$gte": value}}\<close>. A comparison holds only between two dates; a
  document without the field matches neither.
\<close>

datatype cond = Eq string val | Gte string val

fun holds :: "doc \<Rightarrow> cond \<Rightarrow> bool" where
  "holds d (Eq k v) = (map_of d k = Some v)"
| "holds d (Gte k v) =
     (case (map_of d k, v) of
        (Some (VDate t), VDate s) \<Rightarrow> s \<le> t
      | _ \<Rightarrow> False)"

definition matches :: "doc \<Rightarrow> cond list \<Rightarrow> bool" where
  "matches d q = list_all (holds d) q"

definition find :: "coll \<Rightarrow> cond list \<Rightarrow> doc list" where
  "find c q = filter (\<lambda>d. matches d q) c"

fun find_one :: "coll \<Rightarrow> cond list \<Rightarrow> doc option" where
  "find_one [] q = None"
| "find_one (d # ds) q = (if matches d q then Some d else find_one ds q)"

text \<open>
  \<^verbatim>\<open>update_one(filter, {"$set": fields})\<close> changes the first document that matches
  and returns the collection with \<^verbatim>\<open>matched_count\<close>.
\<close>

definition dollar_set :: "doc \<Rightarrow> doc \<Rightarrow> doc" where
  "dollar_set fields d = fold (\<lambda>(k, v). AList.update k v) fields d"

fun update_one :: "coll \<Rightarrow> cond list \<Rightarrow> doc \<Rightarrow> coll \<times> nat" where
  "update_one [] q fields = ([], 0)"
| "update_one (d # ds) q fields =
     (if matches d q then (dollar_set fields d # ds, 1)
      else (case update_one ds q fields of (ds', n) \<Rightarrow> (d # ds', n)))"

section \<open>Floating point\<close>

text \<open>
  A Python float is an IEEE 754 binary64 number. It is modelled by the rational it
  denotes; every operation computes the exact result and rounds it to the nearest
  number with a 53-bit significand, ties to even. Exponent overflow and subnormal
  numbers are left out: the handlers only divide a count by a larger count, multiply by
  100 and round, which stays between \<open>2 ^ - 64\<close> and \<open>100\<close> for every list
  Python can hold.
\<close>

function bitlen :: "int \<Rightarrow> int" where
  "bitlen n = (if n \<le> 0 then 0 else 1 + bitlen (n div 2))"
  by pat_completeness auto
termination
  by (relation "measure nat") auto

definition pow2 :: "int \<Rightarrow> rat" where
  "pow2 e = (if 0 \<le> e then 2 ^ nat e else 1 / 2 ^ nat (- e))"

definition round_half_even :: "rat \<Rightarrow> int" where
  "round_half_even x =
     (let f = \<lfloor>x\<rfloor>; d = x - of_int f in
      if d < 1 / 2 then f
      else if 1 / 2 < d then f + 1
      else if even f then f else f + 1)"

text \<open>The exponent \<open>E\<close> with \<open>2 ^ E \<le> a < 2 ^ (E + 1)\<close>, for \<open>a > 0\<close>.\<close>

definition ilog2 :: "rat \<Rightarrow> int" where
  "ilog2 a =
     (case quotient_of a of (n, d) \<Rightarrow>
        let E0 = bitlen n - bitlen d in
        if pow2 E0 \<le> a then E0 else E0 - 1)"

definition float_round :: "rat \<Rightarrow> rat" where
  "float_round x =
     (if x = 0 then 0
      else
        let a = \<bar>x\<bar>;
            e = ilog2 a - 52;
            m = round_half_even (a / pow2 e)
        in sgn x * of_int m * pow2 e)"

text \<open>\<^verbatim>\<open>a / b\<close> on two ints, \<^verbatim>\<open>x * y\<close> on two floats, \<^verbatim>\<open>round(x, 2)\<close>.\<close>

definition truediv :: "int \<Rightarrow> int \<Rightarrow> error + rat" where
  "truediv a b =
     (if b = 0 then Inl ZeroDivisionError
      else Inr (float_round (of_int a / of_int b)))"

definition fmul :: "rat \<Rightarrow> rat \<Rightarrow> rat" where
  "fmul x y = float_round (x * y)"

definition round2 :: "rat \<Rightarrow> rat" where
  "round2 x = float_round (of_int (round_half_even (x * 100)) / 100)"

section \<open>The attendance summary\<close>

record AttendanceSummary =
  total :: int
  present :: int
  absent :: int
  percentage :: rat
  locked_for_attendance :: bool

text \<open>
  \<^verbatim>\<open>round((present / total) * 100, 2) if total else 0.0\<close>
\<close>

definition percentage_of :: "int \<Rightarrow> int \<Rightarrow> error + rat" where
  "percentage_of p t =
     (if t \<noteq> 0
      then (case truediv p t of
              Inl e \<Rightarrow> Inl e
            | Inr q \<Rightarrow> Inr (round2 (fmul q 100)))
      else Inr 0)"

text \<open>
  \<^verbatim>\<open>datetime.utcnow() - timedelta(days=days)\<close>, in microseconds, and the
  millisecond the driver sends for it.
\<close>

definition since_of :: "int \<Rightarrow> int \<Rightarrow> int" where
  "since_of now days = now - days * 86400000000"

definition to_bson_date :: "int \<Rightarrow> val" where
  "to_bson_date us = VDate (us div 1000)"

definition is_present :: "doc \<Rightarrow> bool" where
  "is_present l = (get l ''status'' (VStr ''present'') = VStr ''present'')"

text \<open>
  The handler takes the database handle, the clock reading and its two arguments, and
  returns its response or the exception it raised, the database after the call, and
  the number of \<^verbatim>\<open>update_one\<close> calls it issued.
\<close>

type_synonym 'a outcome = "(error + 'a) \<times> database option \<times> nat"

text \<open>\<^verbatim>\<open>bool(student.get("locked_for_attendance", False))\<close>\<close>

definition read_lock :: "doc \<Rightarrow> bool" where
  "read_lock student = truthy (get student ''locked_for_attendance'' (VBool False))"

definition auto_lock ::
  "database option \<Rightarrow> doc \<Rightarrow> int \<Rightarrow> int \<Rightarrow> int \<Rightarrow> rat \<Rightarrow> AttendanceSummary outcome"
where
  "auto_lock db student t p a pct =
     (let locked = read_lock student in
      if get student ''category'' VNull = VStr ''engineering''
      then
        (let should_lock = (pct < 75) in
         if should_lock \<noteq> locked
         then
           (case collection db ''student'' of
              Inl e \<Rightarrow> (Inl e, db, 0)
            | Inr students \<Rightarrow>
               (case getitem student ''_id'' of
                  Inl e \<Rightarrow> (Inl e, db, 0)
                | Inr i \<Rightarrow>
                   (case update_one students [Eq ''_id'' i]
                           [(''locked_for_attendance'', VBool should_lock)] of
                      (students', n) \<Rightarrow>
                        (Inr \<lparr>total = t, present = p, absent = a, percentage = pct,
                              locked_for_attendance = should_lock\<rparr>,
                         map_option (\<lambda>d. d(''student'' := students')) db, 1))))
         else
           (Inr \<lparr>total = t, present = p, absent = a, percentage = pct,
                 locked_for_attendance = locked\<rparr>, db, 0))
      else
        (Inr \<lparr>total = t, present = p, absent = a, percentage = pct,
              locked_for_attendance = locked\<rparr>, db, 0))"

text \<open>
  The records of one student inside the window:
  \<^verbatim>\<open>find({"student_id": student_id, "timestamp": {"$gte": since}})\<close>.
\<close>

definition logs :: "coll \<Rightarrow> int \<Rightarrow> string \<Rightarrow> int \<Rightarrow> doc list" where
  "logs attendancelog now student_id days =
     find attendancelog
       [Eq ''student_id'' (VStr student_id),
        Gte ''timestamp'' (to_bson_date (since_of now days))]"

definition attendance_summary ::
  "database option \<Rightarrow> int \<Rightarrow> string \<Rightarrow> int \<Rightarrow> AttendanceSummary outcome"
where
  "attendance_summary db now student_id days =
     (case collection db ''student'' of
        Inl e \<Rightarrow> (Inl e, db, 0)
      | Inr students \<Rightarrow>
     (case ObjectId student_id of
        Inl e \<Rightarrow> (Inl e, db, 0)
      | Inr oid \<Rightarrow>
     (case find_one students [Eq ''_id'' (VOid oid)] of
        None \<Rightarrow> (Inl (HTTPException 404 ''Student not found''), db, 0)
      | Some student \<Rightarrow>
     if student = [] then (Inl (HTTPException 404 ''Student not found''), db, 0)
     else
     (case collection db ''attendancelog'' of
        Inl e \<Rightarrow> (Inl e, db, 0)
      | Inr attendancelog \<Rightarrow>
     (let ls = logs attendancelog now student_id days;
          t = int (length ls);
          p = int (length (filter is_present ls));
          a = t - p
      in case percentage_of p t of
           Inl e \<Rightarrow> (Inl e, db, 0)
         | Inr pct \<Rightarrow> auto_lock db student t p a pct)))))"

text \<open>\<^verbatim>\<open>days: int = Query(120, ge=1, le=365)\<close>, checked before the handler runs.\<close>

definition Query_days :: "int option \<Rightarrow> error + int" where
  "Query_days q =
     (case q of
        None \<Rightarrow> Inr 120
      | Some d \<Rightarrow> if 1 \<le> d \<and> d \<le> 365 then Inr d else Inl RequestValidationError)"

definition get_attendance_summary ::
  "database option \<Rightarrow> int \<Rightarrow> string \<Rightarrow> int option \<Rightarrow> AttendanceSummary outcome"
where
  "get_attendance_summary db now student_id q =
     (case Query_days q of
        Inl e \<Rightarrow> (Inl e, db, 0)
      | Inr days \<Rightarrow> attendance_summary db now student_id days)"

section \<open>Manual lock and unlock\<close>

definition manual_lock :: "database option \<Rightarrow> string \<Rightarrow> doc outcome" where
  "manual_lock db student_id =
     (case collection db ''student'' of
        Inl e \<Rightarrow> (Inl e, db, 0)
      | Inr students \<Rightarrow>
     (case ObjectId student_id of
        Inl e \<Rightarrow> (Inl e, db, 0)
      | Inr oid \<Rightarrow>
     (case update_one students [Eq ''_id'' (VOid oid)]
             [(''locked_for_attendance'', VBool True)] of
        (students', matched_count) \<Rightarrow>
          (if matched_count = 0 then Inl (HTTPException 404 ''Student not found'')
           else Inr [(''locked'', VBool True)],
           map_option (\<lambda>d. d(''student'' := students')) db, 1))))"

definition manual_unlock :: "database option \<Rightarrow> string \<Rightarrow> doc outcome" where
  "manual_unlock db student_id =
     (case collection db ''student'' of
        Inl e \<Rightarrow> (Inl e, db, 0)
      | Inr students \<Rightarrow>
     (case ObjectId student_id of
        Inl e \<Rightarrow> (Inl e, db, 0)
      | Inr oid \<Rightarrow>
     (case update_one students [Eq ''_id'' (VOid oid)]
             [(''locked_for_attendance'', VBool False)] of
        (students', matched_count) \<Rightarrow>
          (if matched_count = 0 then Inl (HTTPException 404 ''Student not found'')
           else Inr [(''locked'', VBool False)],
           map_option (\<lambda>d. d(''student'' := students')) db, 1))))"

section \<open>The attendance record schema\<close>

text \<open>
  The pydantic model \<^verbatim>\<open>AttendanceLog\<close>: the fields a caller may leave out are
  optional arguments of the constructor, which fills in the defaults and rejects a
  \<^verbatim>\<open>mode\<close> or \<^verbatim>\<open>status\<close> outside its \<^verbatim>\<open>Literal\<close>.
\<close>

record AttendanceLog =
  student_id :: string
  subject_id :: "string option"
  batch_id :: "string option"
  mode :: string
  status :: string
  device_id :: "string option"
  proxy_detected :: bool
  timestamp :: int

definition new_AttendanceLog ::
  "int \<Rightarrow> string \<Rightarrow> string option \<Rightarrow> string option \<Rightarrow> string \<Rightarrow> string option \<Rightarrow>
   string option \<Rightarrow> bool option \<Rightarrow> int option \<Rightarrow> error + AttendanceLog"
where
  "new_AttendanceLog now sid subj batch m st dev proxy ts =
     (if m \<notin> set [''face'', ''fingerprint'', ''rfid'', ''geo'', ''random_ai'']
      then Inl RequestValidationError
      else if (case st of None \<Rightarrow> False | Some v \<Rightarrow> v \<notin> set [''present'', ''absent''])
      then Inl RequestValidationError
      else Inr \<lparr>student_id = sid, subject_id = subj, batch_id = batch, mode = m,
                status = (case st of None \<Rightarrow> ''present'' | Some v \<Rightarrow> v),
                device_id = dev,
                proxy_detected = (case proxy of None \<Rightarrow> False | Some b \<Rightarrow> b),
                timestamp = (case ts of None \<Rightarrow> now | Some t \<Rightarrow> t)\<rparr>)"

section \<open>A small database\<close>

text \<open>
  Four students and thirteen attendance records, used to run the handlers: the first
  student is the scenario of the specification (engineering, unlocked, ten records in
  the window of which seven count as present), the second is in another category and
  has no record, the third and fourth have no lock field.
\<close>

definition demo_oid :: "int \<Rightarrow> int list" where
  "demo_oid b = [100, 183, 240, 194, 161, 211, 228, 245, 166, 183, 200, b]"

definition demo_log :: "string \<Rightarrow> string \<Rightarrow> int \<Rightarrow> doc" where
  "demo_log sid st ts =
     [(''student_id'', VStr sid), (''mode'', VStr ''face''), (''status'', VStr st),
      (''timestamp'', VDate ts)]"

definition demo_students :: coll where
  "demo_students =
     [[(''_id'', VOid (demo_oid 209)), (''user_id'', VStr ''u1''),
       (''category'', VStr ''engineering''), (''locked_for_attendance'', VBool False)],
      [(''_id'', VOid (demo_oid 210)), (''user_id'', VStr ''u2''),
       (''category'', VStr ''jee''), (''locked_for_attendance'', VBool True)],
      [(''_id'', VOid (demo_oid 211)), (''user_id'', VStr ''u3''),
       (''category'', VStr ''engineering'')],
      [(''_id'', VOid (demo_oid 212)), (''user_id'', VStr ''u4''),
       (''category'', VStr ''engineering'')]]"

definition demo_logs :: coll where
  "demo_logs =
     [demo_log ''64b7f0c2a1d3e4f5a6b7c8d1'' ''present'' 1600000000000,
      demo_log ''64b7f0c2a1d3e4f5a6b7c8d1'' ''present'' 1699000000001,
      demo_log ''64b7f0c2a1d3e4f5a6b7c8d1'' ''present'' 1699000000002,
      demo_log ''64b7f0c2a1d3e4f5a6b7c8d1'' ''absent'' 1699000000003,
      demo_log ''64b7f0c2a1d3e4f5a6b7c8d3'' ''present'' 1699000000004,
      demo_log ''64b7f0c2a1d3e4f5a6b7c8d1'' ''present'' 1699000000005,
      demo_log ''64b7f0c2a1d3e4f5a6b7c8d1'' ''late'' 1699000000006,
      [(''student_id'', VStr ''64b7f0c2a1d3e4f5a6b7c8d1''), (''mode'', VStr ''rfid''),
       (''timestamp'', VDate 1699000000007)],
      demo_log ''64b7f0c2a1d3e4f5a6b7c8d1'' ''present'' 1699000000008,
      demo_log ''64b7f0c2a1d3e4f5a6b7c8d3'' ''present'' 1699000000009,
      demo_log ''64b7f0c2a1d3e4f5a6b7c8d1'' ''present'' 1699000000010,
      demo_log ''64b7f0c2a1d3e4f5a6b7c8d1'' ''absent'' 1699000000011,
      demo_log ''64b7f0c2a1d3e4f5a6b7c8d1'' ''present'' 1699000000012]"

definition demo_db :: database where
  "demo_db name =
     (if name = ''student'' then demo_students
      else if name = ''attendancelog'' then demo_logs else [])"

definition demo_now :: int where
  "demo_now = 1700000000000000"

section \<open>Facts about the store operations\<close>

lemma find_one_matches: "find_one c q = Some d \<Longrightarrow> matches d q"
  by (induction c) (auto split: if_splits)

lemma matches_Eq_nonempty: "matches d [Eq k v] \<Longrightarrow> d \<noteq> []"
  by (auto simp: matches_def)

lemma matches_Eq_getitem: "matches d [Eq k v] \<Longrightarrow> getitem d k = Inr v"
  by (simp add: matches_def getitem_def)

lemma get_update:
  "get (AList.update k v d) k' dflt = (if k' = k then v else get d k' dflt)"
  by (simp add: get_def update_conv')

lemma dollar_set_one: "dollar_set [(k, v)] d = AList.update k v d"
  by (simp add: dollar_set_def)

lemma matches_update_other:
  "k \<noteq> k' \<Longrightarrow> matches (AList.update k v d) [Eq k' w] = matches d [Eq k' w]"
  by (simp add: matches_def update_conv')

lemma update_one_found:
  "find_one c q = Some d \<Longrightarrow> matches (dollar_set f d) q \<Longrightarrow>
   \<exists>c'. update_one c q f = (c', 1) \<and> find_one c' q = Some (dollar_set f d)"
  by (induction c) (auto split: if_splits prod.splits)

lemma update_one_missing: "find_one c q = None \<Longrightarrow> update_one c q f = (c, 0)"
  by (induction c) (auto split: if_splits)

lemma percentage_of_total: "\<exists>r. percentage_of p t = Inr r"
  by (simp add: percentage_of_def truediv_def)

lemma percentage_of_zero: "percentage_of p 0 = Inr 0"
  by (simp add: percentage_of_def)

text \<open>The handler on a student that exists: everything up to the lock policy succeeds.\<close>

lemma attendance_summary_found:
  assumes "ObjectId sid = Inr oid"
    and "find_one (d ''student'') [Eq ''_id'' (VOid oid)] = Some student"
    and "percentage_of
           (int (length (filter is_present (logs (d ''attendancelog'') now sid days))))
           (int (length (logs (d ''attendancelog'') now sid days))) = Inr pct"
  shows "attendance_summary (Some d) now sid days =
           auto_lock (Some d) student
             (int (length (logs (d ''attendancelog'') now sid days)))
             (int (length (filter is_present (logs (d ''attendancelog'') now sid days))))
             (int (length (logs (d ''attendancelog'') now sid days))
               - int (length (filter is_present (logs (d ''attendancelog'') now sid days))))
             pct"
proof -
  have "student \<noteq> []"
    using assms(2) find_one_matches matches_Eq_nonempty by blast
  then show ?thesis
    using assms by (simp add: attendance_summary_def collection_def Let_def)
qed

lemma auto_lock_found:
  assumes "find_one (d ''student'') [Eq ''_id'' (VOid oid)] = Some student"
  shows "auto_lock (Some d) student t p a pct =
     (if get student ''category'' VNull = VStr ''engineering''
         \<and> (pct < 75) \<noteq> read_lock student
      then (Inr \<lparr>total = t, present = p, absent = a, percentage = pct,
                 locked_for_attendance = (pct < 75)\<rparr>,
            Some (d(''student'' :=
                    fst (update_one (d ''student'') [Eq ''_id'' (VOid oid)]
                           [(''locked_for_attendance'', VBool (pct < 75))]))), 1)
      else (Inr \<lparr>total = t, present = p, absent = a, percentage = pct,
                 locked_for_attendance = read_lock student\<rparr>, Some d, 0))"
proof -
  have "getitem student ''_id'' = Inr (VOid oid)"
    using assms find_one_matches matches_Eq_getitem by blast
  then show ?thesis
    by (simp add: auto_lock_def collection_def Let_def split: prod.splits)
qed

lemma update_one_lock:
  assumes "find_one c [Eq ''_id'' i] = Some student"
  shows "\<exists>c'. update_one c [Eq ''_id'' i] [(''locked_for_attendance'', v)] = (c', 1)
           \<and> find_one c' [Eq ''_id'' i]
               = Some (AList.update ''locked_for_attendance'' v student)"
proof -
  have "matches student [Eq ''_id'' i]"
    using assms by (rule find_one_matches)
  then have "matches (dollar_set [(''locked_for_attendance'', v)] student) [Eq ''_id'' i]"
    by (simp add: dollar_set_one matches_update_other)
  from update_one_found [OF assms this] show ?thesis
    by (simp add: dollar_set_one)
qed

lemma read_lock_update:
  "read_lock (AList.update ''locked_for_attendance'' (VBool b) student) = b"
  by (simp add: read_lock_def get_update)

lemma category_update:
  "get (AList.update ''locked_for_attendance'' v student) ''category'' dflt
     = get student ''category'' dflt"
  by (simp add: get_update)

text \<open>The handler on a student that exists, in one equation.\<close>

lemma attendance_summary_existing:
  assumes "ObjectId sid = Inr oid"
    and "find_one (d ''student'') [Eq ''_id'' (VOid oid)] = Some student"
  shows "\<exists>pct.
     percentage_of
       (int (length (filter is_present (logs (d ''attendancelog'') now sid days))))
       (int (length (logs (d ''attendancelog'') now sid days))) = Inr pct
     \<and> attendance_summary (Some d) now sid days =
     (if get student ''category'' VNull = VStr ''engineering''
         \<and> (pct < 75) \<noteq> read_lock student
      then (Inr \<lparr>total = int (length (logs (d ''attendancelog'') now sid days)),
                 present = int (length (filter is_present
                                  (logs (d ''attendancelog'') now sid days))),
                 absent = int (length (logs (d ''attendancelog'') now sid days))
                   - int (length (filter is_present
                                  (logs (d ''attendancelog'') now sid days))),
                 percentage = pct,
                 locked_for_attendance = (pct < 75)\<rparr>,
            Some (d(''student'' :=
                    fst (update_one (d ''student'') [Eq ''_id'' (VOid oid)]
                           [(''locked_for_attendance'', VBool (pct < 75))]))), 1)
      else (Inr \<lparr>total = int (length (logs (d ''attendancelog'') now sid days)),
                 present = int (length (filter is_present
                                  (logs (d ''attendancelog'') now sid days))),
                 absent = int (length (logs (d ''attendancelog'') now sid days))
                   - int (length (filter is_present
                                  (logs (d ''attendancelog'') now sid days))),
                 percentage = pct,
                 locked_for_attendance = read_lock student\<rparr>, Some d, 0))"
proof -
  obtain pct where p: "percentage_of
       (int (length (filter is_present (logs (d ''attendancelog'') now sid days))))
       (int (length (logs (d ''attendancelog'') now sid days))) = Inr pct"
    using percentage_of_total by blast
  show ?thesis
    using p attendance_summary_found [where d = d, OF assms p]
      auto_lock_found [where d = d, OF assms(2)]
    by simp
qed

subsection \<open>The handlers on the small database\<close>

lemmas demo_defs =
  demo_db_def demo_students_def demo_logs_def demo_log_def demo_now_def demo_oid_def

lemmas eval_defs =
  attendance_summary_def auto_lock_def collection_def ObjectId_def hex_digit_def
  isspace_def
  matches_def find_def logs_def get_def getitem_def dollar_set_def is_present_def
  read_lock_def since_of_def to_bson_date_def

lemma pct_7_10: "percentage_of 7 10 = Inr 70"
  by code_simp


lemma demo_s1:
  "attendance_summary (Some demo_db) demo_now ''64b7f0c2a1d3e4f5a6b7c8d1'' 120 =
     (Inr \<lparr>total = 10, present = 7, absent = 3, percentage = 70,
           locked_for_attendance = True\<rparr>,
      Some (demo_db(''student'' :=
        [(''_id'', VOid (demo_oid 209)), (''user_id'', VStr ''u1''),
         (''category'', VStr ''engineering''), (''locked_for_attendance'', VBool True)]
        # tl demo_students)), 1)"
  by (simp add: eval_defs demo_defs pct_7_10)

lemma demo_s2:
  "attendance_summary (Some demo_db) demo_now ''64b7f0c2a1d3e4f5a6b7c8d2'' 120 =
     (Inr \<lparr>total = 0, present = 0, absent = 0, percentage = 0,
           locked_for_attendance = True\<rparr>, Some demo_db, 0)"
  by (simp add: eval_defs demo_defs percentage_of_zero)


lemma demo_id1: "ObjectId ''64b7f0c2a1d3e4f5a6b7c8d1'' = Inr (demo_oid 209)"
  by (simp add: ObjectId_def hex_digit_def isspace_def demo_oid_def)

lemma demo_id2: "ObjectId ''64b7f0c2a1d3e4f5a6b7c8d2'' = Inr (demo_oid 210)"
  by (simp add: ObjectId_def hex_digit_def isspace_def demo_oid_def)


lemma demo_id4: "ObjectId ''64b7f0c2a1d3e4f5a6b7c8d4'' = Inr (demo_oid 212)"
  by (simp add: ObjectId_def hex_digit_def isspace_def demo_oid_def)

lemma demo_id9: "ObjectId ''64b7f0c2a1d3e4f5a6b7c8d9'' = Inr (demo_oid 217)"
  by (simp add: ObjectId_def hex_digit_def isspace_def demo_oid_def)

lemma demo_find1:
  "find_one (demo_db ''student'') [Eq ''_id'' (VOid (demo_oid 209))]
     = Some (demo_students ! 0)"
  by (simp add: demo_defs matches_def)

lemma demo_find2:
  "find_one (demo_db ''student'') [Eq ''_id'' (VOid (demo_oid 210))]
     = Some (demo_students ! 1)"
  by (simp add: demo_defs matches_def)


lemma demo_find4:
  "find_one (demo_db ''student'') [Eq ''_id'' (VOid (demo_oid 212))]
     = Some (demo_students ! 3)"
  by (simp add: demo_defs matches_def)

lemma demo_find9:
  "find_one (demo_db ''student'') [Eq ''_id'' (VOid (demo_oid 217))] = None"
  by (simp add: demo_defs matches_def)

section \<open>Facts about the floating-point operations\<close>

text \<open>The recursion equation of \<open>bitlen\<close> is applied by hand.\<close>

declare bitlen.simps [simp del]

lemma pow2_powi: "pow2 e = 2 powi e"
  by (simp add: pow2_def power_int_def field_simps)

lemma pow2_pos: "0 < pow2 e"
  by (simp add: pow2_powi)

lemma pow2_add: "pow2 (a + b) = pow2 a * pow2 b"
  by (simp add: pow2_powi power_int_add)

lemma pow2_nat: "0 \<le> e \<Longrightarrow> pow2 e = 2 ^ nat e"
  by (simp add: pow2_def)

text \<open>\<open>bitlen n\<close> is the number of binary digits of a positive \<open>n\<close>.\<close>

lemma bitlen_bounds:
  "0 < n \<Longrightarrow> 1 \<le> bitlen n \<and> 2 ^ nat (bitlen n - 1) \<le> n \<and> n < 2 ^ nat (bitlen n)"
proof (induction n rule: bitlen.induct)
  case (1 n)
  show ?case
  proof (cases "n = 1")
    case True
    have "bitlen 1 = 1"
      by (simp add: bitlen.simps [of 1] bitlen.simps [of 0])
    with True show ?thesis by simp
  next
    case False
    with "1.prems" have h: "0 < n div 2" by simp
    have ih: "1 \<le> bitlen (n div 2) \<and> 2 ^ nat (bitlen (n div 2) - 1) \<le> n div 2
               \<and> n div 2 < 2 ^ nat (bitlen (n div 2))"
      using "1.IH" "1.prems" h by simp
    have b: "bitlen n = 1 + bitlen (n div 2)"
      using "1.prems" by (simp add: bitlen.simps [of n])
    have e1: "nat (bitlen n - 1) = Suc (nat (bitlen (n div 2) - 1))"
      using b ih by arith
    have e2: "nat (bitlen n) = Suc (nat (bitlen (n div 2)))"
      using b ih by arith
    have "2 * (n div 2) \<le> n" and "n \<le> 2 * (n div 2) + 1"
      by presburger+
    then show ?thesis
      using ih b unfolding e1 e2 by simp
  qed
qed


lemma bitlen_lower: "0 < n \<Longrightarrow> pow2 (bitlen n - 1) \<le> of_int n"
proof -
  assume n: "0 < n"
  then have "(2::int) ^ nat (bitlen n - 1) \<le> n" and "0 \<le> bitlen n - 1"
    using bitlen_bounds [OF n] by auto
  then have "(of_int ((2::int) ^ nat (bitlen n - 1)) :: rat) \<le> of_int n"
    and "pow2 (bitlen n - 1) = 2 ^ nat (bitlen n - 1)"
    by (simp_all only: of_int_le_iff pow2_nat)
  then show ?thesis by simp
qed

lemma bitlen_upper: "0 < n \<Longrightarrow> of_int n \<le> pow2 (bitlen n)"
proof -
  assume n: "0 < n"
  then have "n \<le> (2::int) ^ nat (bitlen n)" and "0 \<le> bitlen n"
    using bitlen_bounds [OF n] by auto
  then have "(of_int n :: rat) \<le> of_int ((2::int) ^ nat (bitlen n))"
    and "pow2 (bitlen n) = 2 ^ nat (bitlen n)"
    by (simp_all only: of_int_le_iff pow2_nat)
  then show ?thesis by simp
qed

lemma ilog2_le:
  assumes "0 < a"
  shows "pow2 (ilog2 a) \<le> a"
proof -
  obtain n d where q: "quotient_of a = (n, d)"
    by fastforce
  have d: "0 < d"
    using q by (rule quotient_of_denom_pos)
  have a: "a = of_int n / of_int d"
    using q by (rule quotient_of_div)
  have n: "0 < n"
    using assms d a by (simp add: zero_less_divide_iff)
  have "pow2 (bitlen n - bitlen d - 1) = pow2 (bitlen n - 1) / pow2 (bitlen d)"
    by (simp add: pow2_powi power_int_diff)
  also have "\<dots> \<le> of_int n / of_int d"
    using bitlen_lower [OF n] bitlen_upper [OF d] d pow2_pos [of "bitlen n - 1"]
    by (intro frac_le) simp_all
  finally have "pow2 (bitlen n - bitlen d - 1) \<le> a"
    using a by simp
  then show ?thesis
    by (simp add: ilog2_def q Let_def)
qed

text \<open>Rounding to an integer moves a number by at most one half.\<close>

lemma round_half_even_error: "\<bar>of_int (round_half_even w) - w\<bar> \<le> 1 / 2"
proof -
  have "of_int \<lfloor>w\<rfloor> \<le> w" and "w < of_int \<lfloor>w\<rfloor> + 1"
    by linarith+
  then show ?thesis
    by (auto simp: round_half_even_def Let_def)
qed

text \<open>Rounding to a float has a relative error of at most \<open>2 ^ - 53\<close>.\<close>

lemma float_round_error: "\<bar>float_round x - x\<bar> \<le> \<bar>x\<bar> / 2 ^ 53"
proof (cases "x = 0")
  case True
  then show ?thesis by (simp add: float_round_def)
next
  case False
  define a where "a = \<bar>x\<bar>"
  define e where "e = ilog2 a - 52"
  define m where "m = round_half_even (a / pow2 e)"
  have a: "0 < a" using False by (simp add: a_def)
  have fl: "float_round x = sgn x * of_int m * pow2 e"
    using False by (simp add: float_round_def Let_def a_def e_def m_def)
  have x: "x = sgn x * a"
    by (simp add: a_def sgn_mult_abs)
  have "float_round x - x = sgn x * (of_int m * pow2 e - a)"
    using fl x by (metis mult.assoc right_diff_distrib)
  then have "\<bar>float_round x - x\<bar> = \<bar>of_int m * pow2 e - a\<bar>"
    using False by (simp add: abs_mult)
  also have "of_int m * pow2 e - a = (of_int m - a / pow2 e) * pow2 e"
    using pow2_pos [of e] by (simp add: left_diff_distrib)
  also have "\<bar>(of_int m - a / pow2 e) * pow2 e\<bar> \<le> 1 / 2 * pow2 e"
    using round_half_even_error [of "a / pow2 e"] pow2_pos [of e]
    by (simp add: abs_mult m_def mult_right_mono)
  also have "pow2 e = pow2 (ilog2 a) / 2 ^ 52"
    by (simp add: e_def pow2_powi power_int_diff)
  also have "1 / 2 * (pow2 (ilog2 a) / 2 ^ 52) \<le> 1 / 2 * (a / 2 ^ 52)"
    using ilog2_le [OF a] by (simp add: divide_right_mono)
  finally show ?thesis
    by (simp add: a_def)
qed


text \<open>
  The quotient of two counts, times 100, as the floats compute it and seen in
  hundredths: it is within \<open>30000 / 2 ^ 53\<close> of the exact value.
\<close>

lemma scaled_product_error:
  assumes "0 \<le> p" and "p \<le> t" and "0 < t"
  shows "\<bar>float_round (float_round (of_int p / of_int t) * 100) * 100
           - 10000 * of_int p / of_int t\<bar> \<le> 30000 / 2 ^ 53"
proof -
  define x :: rat where "x = of_int p / of_int t"
  define q where "q = float_round x"
  define y where "y = float_round (q * 100)"
  have x0: "0 \<le> x" and x1: "x \<le> 1"
    using assms by (simp_all add: x_def)
  have "\<bar>q - x\<bar> \<le> \<bar>x\<bar> / 2 ^ 53"
    unfolding q_def by (rule float_round_error)
  also have "\<dots> \<le> 1 / 2 ^ 53"
    using x0 x1 by (simp add: divide_right_mono)
  finally have qx: "\<bar>q - x\<bar> \<le> 1 / 2 ^ 53" .
  have u1: "(1 :: rat) / 2 ^ 53 \<le> 1"
    by simp
  have q2: "\<bar>q\<bar> \<le> 2"
    using qx u1 x0 x1 by linarith
  have "\<bar>y - q * 100\<bar> \<le> \<bar>q * 100\<bar> / 2 ^ 53"
    unfolding y_def by (rule float_round_error)
  also have "\<dots> \<le> 200 / 2 ^ 53"
    using q2 by (simp add: abs_mult divide_right_mono)
  finally have yq: "\<bar>y - q * 100\<bar> \<le> 200 / 2 ^ 53" .
  have "\<bar>y * 100 - 10000 * x\<bar> \<le> 30000 / 2 ^ 53"
    using yq qx by linarith
  then show ?thesis
    by (simp add: x_def q_def y_def)
qed

text \<open>
  A multiple of \<open>1 / t\<close> that is within one half plus less than \<open>1 / (2 t)\<close> of an integer
  is within one half of it.
\<close>

lemma nearest_hundredth:
  fixes k N t :: int and delta :: rat
  assumes t: "0 < t"
    and near: "\<bar>of_int k - of_int N / of_int t\<bar> \<le> 1 / 2 + delta"
    and small: "2 * delta * of_int t < 1"
  shows "\<bar>(of_int k :: rat) - of_int N / of_int t\<bar> \<le> 1 / 2"
proof -
  have "(of_int k :: rat) - of_int N / of_int t = of_int (k * t - N) / of_int t"
    using t by (simp add: field_simps)
  then have e: "\<bar>(of_int k :: rat) - of_int N / of_int t\<bar>
                  = of_int \<bar>k * t - N\<bar> / of_int t"
    using t by simp
  then have "of_int \<bar>k * t - N\<bar> / (of_int t :: rat) \<le> 1 / 2 + delta"
    using near by simp
  then have "(of_int \<bar>k * t - N\<bar> :: rat) \<le> (1 / 2 + delta) * of_int t"
    using t by (simp add: pos_divide_le_eq)
  then have "(of_int (2 * \<bar>k * t - N\<bar>) :: rat) < of_int (t + 1)"
    using small by (simp add: algebra_simps)
  then have "2 * \<bar>k * t - N\<bar> < t + 1"
    by (simp only: of_int_less_iff)
  then have "2 * \<bar>k * t - N\<bar> \<le> t"
    by simp
  then have "(of_int (2 * \<bar>k * t - N\<bar>) :: rat) \<le> of_int t"
    by (simp only: of_int_le_iff)
  then have "of_int \<bar>k * t - N\<bar> / (of_int t :: rat) \<le> 1 / 2"
    using t by (simp add: pos_divide_le_eq)
  then show ?thesis
    using e by simp
qed

lemma percentage_of_nearest:
  assumes "0 \<le> p" and "p \<le> t" and "0 < t" and "t \<le> 10 ^ 11"
    and "percentage_of p t = Inr pct"
  shows "\<exists>k::int. pct = float_round (of_int k / 100)
           \<and> \<bar>of_int k - 10000 * of_int p / of_int t\<bar> \<le> (1 / 2 :: rat)"
proof -
  define y where "y = float_round (float_round (of_int p / of_int t) * 100)"
  define k where "k = round_half_even (y * 100)"
  have pct: "pct = float_round (of_int k / 100)"
    using assms(3,5)
    by (simp add: percentage_of_def truediv_def fmul_def round2_def k_def y_def)
  have a: "\<bar>of_int k - y * 100\<bar> \<le> 1 / 2"
    unfolding k_def by (rule round_half_even_error)
  have b: "\<bar>y * 100 - 10000 * of_int p / of_int t\<bar> \<le> 30000 / 2 ^ 53"
    unfolding y_def using assms(1-3) by (rule scaled_product_error)
  have "\<bar>of_int k - 10000 * of_int p / of_int t\<bar> \<le> (1 / 2 + 30000 / 2 ^ 53 :: rat)"
    using a b by linarith
  then have "\<bar>of_int k - of_int (10000 * p) / of_int t\<bar>
               \<le> (1 / 2 + 30000 / 2 ^ 53 :: rat)"
    by simp
  moreover have "(of_int t :: rat) \<le> 10 ^ 11"
    using assms(4) by (metis of_int_le_iff of_int_numeral of_int_power)
  then have "2 * (30000 / 2 ^ 53) * (of_int t :: rat) < 1"
    by simp
  ultimately have "\<bar>(of_int k :: rat) - of_int (10000 * p) / of_int t\<bar> \<le> 1 / 2"
    using assms(3) by (intro nearest_hundredth) 
  then show ?thesis
    using pct by auto
qed

section \<open>The claims\<close>

text \<open>
  C4. In every summary the handler returns, present plus absent is the total, that is,
  absent is the total minus present, whatever records were retrieved.
\<close>

theorem summary_counts_add_up:
  assumes "fst (attendance_summary db now sid days) = Inr s"
  shows "present s + absent s = total s \<and> absent s = total s - present s
         \<and> 0 \<le> present s \<and> present s \<le> total s"
  using assms
  by (auto simp: attendance_summary_def auto_lock_def Let_def
           split: sum.splits option.splits if_splits prod.splits)

theorem summary_counts_add_up_witness:
  "fst (attendance_summary (Some demo_db) demo_now ''64b7f0c2a1d3e4f5a6b7c8d1'' 120) =
     Inr \<lparr>total = 10, present = 7, absent = 3, percentage = 70,
          locked_for_attendance = True\<rparr>
   \<and> present \<lparr>total = 10, present = 7, absent = 3, percentage = 70,
              locked_for_attendance = True\<rparr>
     + absent \<lparr>total = 10, present = 7, absent = 3, percentage = 70,
              locked_for_attendance = True\<rparr>
     = total \<lparr>total = 10, present = 7, absent = 3, percentage = 70,
              locked_for_attendance = True\<rparr>"
proof -
  have h: "fst (attendance_summary (Some demo_db) demo_now ''64b7f0c2a1d3e4f5a6b7c8d1'' 120) =
     Inr \<lparr>total = 10, present = 7, absent = 3, percentage = 70,
          locked_for_attendance = True\<rparr>"
    by (simp add: demo_s1)
  from summary_counts_add_up [OF h] h show ?thesis by blast
qed

text \<open>No path of the handler raises \<^verbatim>\<open>ZeroDivisionError\<close>.\<close>

lemma attendance_summary_no_zero_division:
  "fst (attendance_summary db now sid days) \<noteq> Inl ZeroDivisionError"
  by (auto simp: attendance_summary_def auto_lock_def Let_def percentage_of_def
        truediv_def collection_def getitem_def ObjectId_def
        split: sum.splits option.splits if_splits prod.splits)

text \<open>
  C5. When no attendance record is retrieved the percentage is exactly 0.0 and nothing
  divides by zero: the handler never raises \<^verbatim>\<open>ZeroDivisionError\<close>, the
  percentage of a total of zero is 0.0 without a division, and the division itself fails
  only on a zero divisor.
\<close>

theorem empty_window_zero_percentage:
  "fst (attendance_summary db now sid days) \<noteq> Inl ZeroDivisionError
   \<and> percentage_of p 0 = Inr 0
   \<and> (truediv p t = Inl ZeroDivisionError \<longleftrightarrow> t = 0)
   \<and> (ObjectId sid = Inr oid
        \<and> find_one (d ''student'') [Eq ''_id'' (VOid oid)] = Some student
        \<and> logs (d ''attendancelog'') now sid days = []
      \<longrightarrow> (\<exists>s. fst (attendance_summary (Some d) now sid days) = Inr s
              \<and> total s = 0 \<and> present s = 0 \<and> absent s = 0 \<and> percentage s = 0))"
proof -
  have a: "fst (attendance_summary db now sid days) \<noteq> Inl ZeroDivisionError"
    by (rule attendance_summary_no_zero_division)
  have b: "percentage_of p 0 = Inr 0"
    by (rule percentage_of_zero)
  have c: "truediv p t = Inl ZeroDivisionError \<longleftrightarrow> t = 0"
    by (simp add: truediv_def)
  have e: "\<exists>s. fst (attendance_summary (Some d) now sid days) = Inr s
              \<and> total s = 0 \<and> present s = 0 \<and> absent s = 0 \<and> percentage s = 0"
    if "ObjectId sid = Inr oid"
      and "find_one (d ''student'') [Eq ''_id'' (VOid oid)] = Some student"
      and "logs (d ''attendancelog'') now sid days = []"
    using that
    by (simp add: attendance_summary_found [where pct = 0] percentage_of_zero
          auto_lock_found [where oid = oid])
  from a b c e show ?thesis by blast
qed

theorem empty_window_zero_percentage_witness:
  "ObjectId ''64b7f0c2a1d3e4f5a6b7c8d2'' = Inr (demo_oid 210)
   \<and> find_one (demo_db ''student'') [Eq ''_id'' (VOid (demo_oid 210))]
       = Some (demo_students ! 1)
   \<and> logs (demo_db ''attendancelog'') demo_now ''64b7f0c2a1d3e4f5a6b7c8d2'' 120 = []
   \<and> (\<exists>s. fst (attendance_summary (Some demo_db) demo_now ''64b7f0c2a1d3e4f5a6b7c8d2'' 120)
             = Inr s
          \<and> total s = 0 \<and> present s = 0 \<and> absent s = 0 \<and> percentage s = 0)"
proof -
  have h1: "ObjectId ''64b7f0c2a1d3e4f5a6b7c8d2'' = Inr (demo_oid 210)"
    by (simp add: ObjectId_def hex_digit_def isspace_def demo_oid_def)
  have h2: "find_one (demo_db ''student'') [Eq ''_id'' (VOid (demo_oid 210))]
       = Some (demo_students ! 1)"
    by (simp add: demo_defs matches_def)
  have h3: "logs (demo_db ''attendancelog'') demo_now ''64b7f0c2a1d3e4f5a6b7c8d2'' 120 = []"
    by (simp add: demo_defs eval_defs)
  from empty_window_zero_percentage
         [of "Some demo_db" demo_now "''64b7f0c2a1d3e4f5a6b7c8d2''" 120 0 0
             "demo_oid 210" demo_db "demo_students ! 1"]
       h1 h2 h3
  show ?thesis by blast
qed

text \<open>
  C1. For a student that exists, the call succeeds and the percentage of its summary is
  the one computed from the retrieved records. When the category is "engineering", the
  student record in the database after the call is the record before the call if the
  stored lock, read as the handler reads it, already equals \<open>percentage < 75\<close>, and
  otherwise that record with the lock field set to \<open>percentage < 75\<close>, by the one
  update the call issues: in both cases the stored lock afterwards is true if the
  percentage is below 75.0 and false if it is 75.0 or more. For a student of any other
  category (or with no category) the database is unchanged and no update is issued,
  whatever the percentage. The attendance records are never changed.
\<close>

theorem engineering_lock_follows_percentage:
  assumes "ObjectId sid = Inr oid"
    and "find_one (d ''student'') [Eq ''_id'' (VOid oid)] = Some student"
  shows "\<exists>s d' n pct.
      attendance_summary (Some d) now sid days = (Inr s, Some d', n)
    \<and> percentage_of
        (int (length (filter is_present (logs (d ''attendancelog'') now sid days))))
        (int (length (logs (d ''attendancelog'') now sid days))) = Inr pct
    \<and> percentage s = pct
    \<and> d' ''attendancelog'' = d ''attendancelog''
    \<and> (if get student ''category'' VNull = VStr ''engineering''
       then find_one (d' ''student'') [Eq ''_id'' (VOid oid)]
              = Some (if (pct < 75) = read_lock student then student
                      else AList.update ''locked_for_attendance'' (VBool (pct < 75))
                             student)
            \<and> n = (if (pct < 75) = read_lock student then 0 else 1)
            \<and> (\<exists>student'.
                 find_one (d' ''student'') [Eq ''_id'' (VOid oid)] = Some student'
                 \<and> read_lock student' = (pct < 75)
                 \<and> (\<forall>b. map_of student ''locked_for_attendance'' = Some (VBool b)
                       \<longrightarrow> map_of student' ''locked_for_attendance''
                             = Some (VBool (pct < 75))))
       else d' = d \<and> n = 0)"
proof -
  obtain pct where p: "percentage_of
       (int (length (filter is_present (logs (d ''attendancelog'') now sid days))))
       (int (length (logs (d ''attendancelog'') now sid days))) = Inr pct"
    and e: "attendance_summary (Some d) now sid days =
     (if get student ''category'' VNull = VStr ''engineering''
         \<and> (pct < 75) \<noteq> read_lock student
      then (Inr \<lparr>total = int (length (logs (d ''attendancelog'') now sid days)),
                 present = int (length (filter is_present
                                  (logs (d ''attendancelog'') now sid days))),
                 absent = int (length (logs (d ''attendancelog'') now sid days))
                   - int (length (filter is_present
                                  (logs (d ''attendancelog'') now sid days))),
                 percentage = pct,
                 locked_for_attendance = (pct < 75)\<rparr>,
            Some (d(''student'' :=
                    fst (update_one (d ''student'') [Eq ''_id'' (VOid oid)]
                           [(''locked_for_attendance'', VBool (pct < 75))]))), 1)
      else (Inr \<lparr>total = int (length (logs (d ''attendancelog'') now sid days)),
                 present = int (length (filter is_present
                                  (logs (d ''attendancelog'') now sid days))),
                 absent = int (length (logs (d ''attendancelog'') now sid days))
                   - int (length (filter is_present
                                  (logs (d ''attendancelog'') now sid days))),
                 percentage = pct,
                 locked_for_attendance = read_lock student\<rparr>, Some d, 0))"
    using attendance_summary_existing [where d = d, OF assms] by blast
  show ?thesis
  proof (cases "get student ''category'' VNull = VStr ''engineering''")
    case False
    then show ?thesis using e p by simp
  next
    case eng: True
    show ?thesis
    proof (cases "(pct < 75) = read_lock student")
      case True
      have "\<forall>b. map_of student ''locked_for_attendance'' = Some (VBool b)
                 \<longrightarrow> b = (pct < 75)"
        using True by (auto simp: read_lock_def get_def)
      then show ?thesis
        using e p eng True assms(2) by auto
    next
      case False
      obtain c' where c: "update_one (d ''student'') [Eq ''_id'' (VOid oid)]
                            [(''locked_for_attendance'', VBool (pct < 75))] = (c', 1)"
        and f: "find_one c' [Eq ''_id'' (VOid oid)]
                  = Some (AList.update ''locked_for_attendance'' (VBool (pct < 75)) student)"
        using update_one_lock [OF assms(2)] by blast
      show ?thesis
        using e p eng False c f
        by (simp add: read_lock_update update_conv')
    qed
  qed
qed

theorem engineering_lock_follows_percentage_witness:
  "ObjectId ''64b7f0c2a1d3e4f5a6b7c8d1'' = Inr (demo_oid 209)
   \<and> find_one (demo_db ''student'') [Eq ''_id'' (VOid (demo_oid 209))]
       = Some (demo_students ! 0)
   \<and> get (demo_students ! 0) ''category'' VNull = VStr ''engineering''
   \<and> read_lock (demo_students ! 0) = False
   \<and> attendance_summary (Some demo_db) demo_now ''64b7f0c2a1d3e4f5a6b7c8d1'' 120 =
       (Inr \<lparr>total = 10, present = 7, absent = 3, percentage = 70,
             locked_for_attendance = True\<rparr>,
        Some (demo_db(''student'' :=
          [(''_id'', VOid (demo_oid 209)), (''user_id'', VStr ''u1''),
           (''category'', VStr ''engineering''), (''locked_for_attendance'', VBool True)]
          # tl demo_students)), 1)
   \<and> find_one
        ((demo_db(''student'' :=
          [(''_id'', VOid (demo_oid 209)), (''user_id'', VStr ''u1''),
           (''category'', VStr ''engineering''), (''locked_for_attendance'', VBool True)]
          # tl demo_students)) ''student'')
        [Eq ''_id'' (VOid (demo_oid 209))]
       = Some (AList.update ''locked_for_attendance'' (VBool True) (demo_students ! 0))
   \<and> AList.update ''locked_for_attendance'' (VBool True) (demo_students ! 0)
       = [(''_id'', VOid (demo_oid 209)), (''user_id'', VStr ''u1''),
          (''category'', VStr ''engineering''), (''locked_for_attendance'', VBool True)]
   \<and> ObjectId ''64b7f0c2a1d3e4f5a6b7c8d2'' = Inr (demo_oid 210)
   \<and> find_one (demo_db ''student'') [Eq ''_id'' (VOid (demo_oid 210))]
       = Some (demo_students ! 1)
   \<and> get (demo_students ! 1) ''category'' VNull = VStr ''jee''
   \<and> attendance_summary (Some demo_db) demo_now ''64b7f0c2a1d3e4f5a6b7c8d2'' 120 =
       (Inr \<lparr>total = 0, present = 0, absent = 0, percentage = 0,
             locked_for_attendance = True\<rparr>, Some demo_db, 0)"
proof -
  have e: "get (demo_students ! 0) ''category'' VNull = VStr ''engineering''"
    and r: "read_lock (demo_students ! 0) = False"
    and j: "get (demo_students ! 1) ''category'' VNull = VStr ''jee''"
    and u: "AList.update ''locked_for_attendance'' (VBool True) (demo_students ! 0)
       = [(''_id'', VOid (demo_oid 209)), (''user_id'', VStr ''u1''),
          (''category'', VStr ''engineering''), (''locked_for_attendance'', VBool True)]"
    by (simp_all add: demo_defs get_def read_lock_def)
  from engineering_lock_follows_percentage
         [where d = demo_db and now = demo_now and days = 120, OF demo_id1 demo_find1]
  obtain s d' n pct where
    a: "attendance_summary (Some demo_db) demo_now ''64b7f0c2a1d3e4f5a6b7c8d1'' 120
          = (Inr s, Some d', n)"
    and b: "percentage s = pct"
    and c: "find_one (d' ''student'') [Eq ''_id'' (VOid (demo_oid 209))]
              = Some (if (pct < 75) = read_lock (demo_students ! 0)
                      then demo_students ! 0
                      else AList.update ''locked_for_attendance'' (VBool (pct < 75))
                             (demo_students ! 0))"
    using e by auto
  from a demo_s1 have s: "s = \<lparr>total = 10, present = 7, absent = 3, percentage = 70,
             locked_for_attendance = True\<rparr>"
    and d': "d' = demo_db(''student'' :=
          [(''_id'', VOid (demo_oid 209)), (''user_id'', VStr ''u1''),
           (''category'', VStr ''engineering''), (''locked_for_attendance'', VBool True)]
          # tl demo_students)"
    by simp_all
  from b s have "pct = 70" by simp
  with c r d' have f: "find_one
        ((demo_db(''student'' :=
          [(''_id'', VOid (demo_oid 209)), (''user_id'', VStr ''u1''),
           (''category'', VStr ''engineering''), (''locked_for_attendance'', VBool True)]
          # tl demo_students)) ''student'')
        [Eq ''_id'' (VOid (demo_oid 209))]
       = Some (AList.update ''locked_for_attendance'' (VBool True) (demo_students ! 0))"
    by simp
  from engineering_lock_follows_percentage
         [where d = demo_db and now = demo_now and days = 120, OF demo_id2 demo_find2]
       j demo_s2
  have "attendance_summary (Some demo_db) demo_now ''64b7f0c2a1d3e4f5a6b7c8d2'' 120 =
       (Inr \<lparr>total = 0, present = 0, absent = 0, percentage = 0,
             locked_for_attendance = True\<rparr>, Some demo_db, 0)"
    by simp
  with e r j u f demo_id1 demo_find1 demo_id2 demo_find2 demo_s1 show ?thesis
    by blast
qed

text \<open>Whatever the handler raises, it has not written.\<close>

lemma attendance_summary_failure_keeps_store:
  assumes "attendance_summary db now sid days = (Inl e, db', n)"
  shows "db' = db \<and> n = 0"
  using assms
  by (auto simp: attendance_summary_def auto_lock_def Let_def
           split: sum.splits option.splits if_splits prod.splits)

text \<open>
  For an identifier that \<^verbatim>\<open>ObjectId\<close> accepts and that matches no student record,
  with a database configured, the handler fails with HTTP 404 "Student not found",
  issues no update and leaves the database as it was.
\<close>

lemma unknown_student_not_found:
  "(ObjectId sid = Inr oid
      \<and> find_one (d ''student'') [Eq ''_id'' (VOid oid)] = None
    \<longrightarrow> attendance_summary (Some d) now sid days
          = (Inl (HTTPException 404 ''Student not found''), Some d, 0))
   \<and> (attendance_summary db now' sid' days' = (Inl e, db', n) \<longrightarrow> db' = db \<and> n = 0)"
proof -
  have a: "attendance_summary (Some d) now sid days
          = (Inl (HTTPException 404 ''Student not found''), Some d, 0)"
    if "ObjectId sid = Inr oid"
      and "find_one (d ''student'') [Eq ''_id'' (VOid oid)] = None"
    using that by (simp add: attendance_summary_def collection_def)
  have b: "db' = db \<and> n = 0" if "attendance_summary db now' sid' days' = (Inl e, db', n)"
    using that by (rule attendance_summary_failure_keeps_store)
  from a b show ?thesis by blast
qed

lemma unknown_student_not_found_demo:
  "ObjectId ''64b7f0c2a1d3e4f5a6b7c8d9'' = Inr (demo_oid 217)
   \<and> find_one (demo_db ''student'') [Eq ''_id'' (VOid (demo_oid 217))]
       = None
   \<and> attendance_summary (Some demo_db) demo_now ''64b7f0c2a1d3e4f5a6b7c8d9'' 120
       = (Inl (HTTPException 404 ''Student not found''), Some demo_db, 0)
   \<and> attendance_summary (Some demo_db) demo_now ''S1'' 120
       = (Inl InvalidId, Some demo_db, 0)"
proof -
  have m: "attendance_summary (Some demo_db) demo_now ''S1'' 120
       = (Inl InvalidId, Some demo_db, 0)"
    by (simp add: attendance_summary_def collection_def ObjectId_def)
  from unknown_student_not_found
         [where sid = "''64b7f0c2a1d3e4f5a6b7c8d9''" and d = demo_db
            and oid = "demo_oid 217" and now = demo_now and days = 120
            and db = "Some demo_db" and now' = demo_now and sid' = "''S1''"
            and days' = 120 and e = InvalidId and db' = "Some demo_db" and n = 0]
       demo_id9 demo_find9 m
  show ?thesis by blast
qed

text \<open>
  An identifier of 24 characters that ends in two blanks is accepted, as eleven bytes;
  it matches no record, and the handler answers 404.
\<close>

lemma blank_padded_id_not_found:
  "ObjectId ''64b7f0c2a1d3e4f5a6b7c8  ''
     = Inr [100, 183, 240, 194, 161, 211, 228, 245, 166, 183, 200]
   \<and> attendance_summary (Some demo_db) demo_now ''64b7f0c2a1d3e4f5a6b7c8  '' 120
       = (Inl (HTTPException 404 ''Student not found''), Some demo_db, 0)"
  by (simp add: attendance_summary_def collection_def ObjectId_def hex_digit_def
        isspace_def matches_def demo_defs)

text \<open>
  C7. The claim asks for HTTP 404 whenever the identifier matches no student record,
  and the handler raises it for a student it does not find. It does not get that far
  for an identifier that \<^verbatim>\<open>ObjectId\<close> refuses: \<^verbatim>\<open>S1\<close>, the identifier of the
  scenarios of the specification, matches no record, and the call ends with the
  \<^verbatim>\<open>InvalidId\<close> that \<^verbatim>\<open>ObjectId\<close> raises, which the handler does not catch,
  instead of the 404. Nothing is written.
\<close>

theorem malformed_id_is_not_404:
  "ObjectId ''S1'' = Inl InvalidId
   \<and> attendance_summary (Some demo_db) demo_now ''S1'' 120
       = (Inl InvalidId, Some demo_db, 0)
   \<and> fst (attendance_summary (Some demo_db) demo_now ''S1'' 120)
       \<noteq> Inl (HTTPException 404 ''Student not found'')"
  by (simp add: attendance_summary_def collection_def ObjectId_def)

text \<open>
  C9. The \<^verbatim>\<open>days\<close> argument is accepted exactly when it lies in the inclusive range
  1 to 365, and is 120 when the caller leaves it out; a value outside the range fails
  with the validation error before the handler body runs: the database is unchanged,
  no update is issued, and neither the database handle nor the student is looked at.
\<close>

theorem days_window_validated:
  "Query_days None = Inr 120
   \<and> ((\<exists>v. Query_days (Some n) = Inr v) \<longleftrightarrow> 1 \<le> n \<and> n \<le> 365)
   \<and> (1 \<le> n \<and> n \<le> 365
       \<longrightarrow> Query_days (Some n) = Inr n
           \<and> get_attendance_summary db now sid (Some n)
               = attendance_summary db now sid n)
   \<and> (n < 1 \<or> 365 < n
       \<longrightarrow> Query_days (Some n) = Inl RequestValidationError
           \<and> get_attendance_summary db now sid (Some n)
               = (Inl RequestValidationError, db, 0))
   \<and> get_attendance_summary db now sid None = attendance_summary db now sid 120"
  by (auto simp: Query_days_def get_attendance_summary_def)

theorem days_window_validated_witness:
  "(1::int) \<le> 365 \<and> (365::int) \<le> 365 \<and> (366::int) > 365
   \<and> Query_days (Some 365) = Inr 365
   \<and> get_attendance_summary (Some demo_db) demo_now ''64b7f0c2a1d3e4f5a6b7c8d2'' (Some 365)
       = attendance_summary (Some demo_db) demo_now ''64b7f0c2a1d3e4f5a6b7c8d2'' 365
   \<and> Query_days (Some 366) = Inl RequestValidationError
   \<and> get_attendance_summary (Some demo_db) demo_now ''64b7f0c2a1d3e4f5a6b7c8d2'' (Some 366)
       = (Inl RequestValidationError, Some demo_db, 0)
   \<and> Query_days (Some 0) = Inl RequestValidationError"
  using days_window_validated
          [of 365 "Some demo_db" demo_now "''64b7f0c2a1d3e4f5a6b7c8d2''"]
        days_window_validated
          [of 366 "Some demo_db" demo_now "''64b7f0c2a1d3e4f5a6b7c8d2''"]
        days_window_validated
          [of 0 "Some demo_db" demo_now "''64b7f0c2a1d3e4f5a6b7c8d2''"]
  by simp

text \<open>A record counts as present when its status is "present" or it has none.\<close>

lemma is_present_iff:
  "is_present l \<longleftrightarrow>
     map_of l ''status'' = Some (VStr ''present'') \<or> map_of l ''status'' = None"
  by (auto simp: is_present_def get_def split: option.splits)

lemma length_filter_compl:
  "int (length xs) - int (length (filter P xs)) = int (length (filter (\<lambda>x. \<not> P x) xs))"
  by (induction xs) auto

text \<open>
  C3. In every summary the handler returns, \<^verbatim>\<open>present\<close> counts the retrieved
  records whose status is literally "present" together with those that have no status
  field, and \<^verbatim>\<open>absent\<close> counts the records with any other status value. A record
  built by the schema without an explicit status has the status "present".
\<close>

theorem present_counts_literal_status:
  assumes "attendance_summary (Some d) now sid days = (Inr s, db', n)"
  shows "present s = int (length (filter
             (\<lambda>l. map_of l ''status'' = Some (VStr ''present'')
                   \<or> map_of l ''status'' = None)
             (logs (d ''attendancelog'') now sid days)))
       \<and> absent s = int (length (filter
             (\<lambda>l. \<exists>v. map_of l ''status'' = Some v \<and> v \<noteq> VStr ''present'')
             (logs (d ''attendancelog'') now sid days)))
       \<and> (\<forall>l. new_AttendanceLog t0 i subj batch m None dev proxy ts = Inr l
               \<longrightarrow> status l = ''present'')"
proof -
  have p: "present s = int (length (filter is_present
                              (logs (d ''attendancelog'') now sid days)))"
    and a: "absent s = int (length (logs (d ''attendancelog'') now sid days))
                 - int (length (filter is_present
                              (logs (d ''attendancelog'') now sid days)))"
    using assms
    by (auto simp: attendance_summary_def auto_lock_def Let_def collection_def
             split: sum.splits option.splits if_splits prod.splits)
  have e: "(\<lambda>l. \<not> is_present l)
           = (\<lambda>l. \<exists>v. map_of l ''status'' = Some v \<and> v \<noteq> VStr ''present'')"
    by (auto simp: is_present_iff fun_eq_iff)
  have i: "is_present = (\<lambda>l. map_of l ''status'' = Some (VStr ''present'')
                   \<or> map_of l ''status'' = None)"
    by (auto simp: is_present_iff fun_eq_iff)
  have s: "\<forall>l. new_AttendanceLog t0 i subj batch m None dev proxy ts = Inr l
               \<longrightarrow> status l = ''present''"
    by (auto simp: new_AttendanceLog_def split: if_splits)
  show ?thesis
    using p a s by (simp add: length_filter_compl e i [symmetric])
qed

theorem present_counts_literal_status_witness:
  "attendance_summary (Some demo_db) demo_now ''64b7f0c2a1d3e4f5a6b7c8d1'' 120 =
     (Inr \<lparr>total = 10, present = 7, absent = 3, percentage = 70,
           locked_for_attendance = True\<rparr>,
      Some (demo_db(''student'' :=
        [(''_id'', VOid (demo_oid 209)), (''user_id'', VStr ''u1''),
         (''category'', VStr ''engineering''), (''locked_for_attendance'', VBool True)]
        # tl demo_students)), 1)
   \<and> 7 = int (length (filter
             (\<lambda>l. map_of l ''status'' = Some (VStr ''present'')
                   \<or> map_of l ''status'' = None)
             (logs (demo_db ''attendancelog'') demo_now ''64b7f0c2a1d3e4f5a6b7c8d1'' 120)))
   \<and> 3 = int (length (filter
             (\<lambda>l. \<exists>v. map_of l ''status'' = Some v \<and> v \<noteq> VStr ''present'')
             (logs (demo_db ''attendancelog'') demo_now ''64b7f0c2a1d3e4f5a6b7c8d1'' 120)))"
  using present_counts_literal_status [OF demo_s1] demo_s1
  by simp




text \<open>\<^verbatim>\<open>matched_count\<close> is zero exactly when no document matches.\<close>

lemma update_one_count_zero:
  "snd (update_one c q f) = 0 \<longleftrightarrow> find_one c q = None"
  by (induction c) (auto split: if_splits prod.splits)

text \<open>
  With an identifier that \<^verbatim>\<open>ObjectId\<close> accepts: for a student that exists, the
  manual lock sets the stored flag to true and returns \<^verbatim>\<open>{"locked": true}\<close>, the
  manual unlock sets it to false and returns \<^verbatim>\<open>{"locked": false}\<close>, whatever the
  category and the attendance (neither is read); the attendance records are untouched.
  When the identifier matches no record the update matches zero documents and both
  fail with HTTP 404, the store unchanged.
\<close>

lemma manual_lock_sets_flag:
  assumes "ObjectId sid = Inr oid"
  shows "(find_one (d ''student'') [Eq ''_id'' (VOid oid)] = Some student \<longrightarrow>
          (\<exists>d'. manual_lock (Some d) sid = (Inr [(''locked'', VBool True)], Some d', 1)
             \<and> find_one (d' ''student'') [Eq ''_id'' (VOid oid)]
                 = Some (AList.update ''locked_for_attendance'' (VBool True) student)
             \<and> d' ''attendancelog'' = d ''attendancelog'')
          \<and> (\<exists>d'. manual_unlock (Some d) sid = (Inr [(''locked'', VBool False)], Some d', 1)
             \<and> find_one (d' ''student'') [Eq ''_id'' (VOid oid)]
                 = Some (AList.update ''locked_for_attendance'' (VBool False) student)
             \<and> d' ''attendancelog'' = d ''attendancelog'')
          \<and> map_of (AList.update ''locked_for_attendance'' (VBool b) student)
               ''locked_for_attendance'' = Some (VBool b)
          \<and> read_lock (AList.update ''locked_for_attendance'' (VBool b) student) = b)
     \<and> (find_one (d ''student'') [Eq ''_id'' (VOid oid)] = None \<longrightarrow>
          snd (update_one (d ''student'') [Eq ''_id'' (VOid oid)]
                 [(''locked_for_attendance'', VBool b)]) = 0
          \<and> manual_lock (Some d) sid
              = (Inl (HTTPException 404 ''Student not found''), Some d, 1)
          \<and> manual_unlock (Some d) sid
              = (Inl (HTTPException 404 ''Student not found''), Some d, 1))"
proof -
  have found: "\<exists>d'. manual_lock (Some d) sid = (Inr [(''locked'', VBool True)], Some d', 1)
             \<and> find_one (d' ''student'') [Eq ''_id'' (VOid oid)]
                 = Some (AList.update ''locked_for_attendance'' (VBool True) student)
             \<and> d' ''attendancelog'' = d ''attendancelog''"
    and found': "\<exists>d'. manual_unlock (Some d) sid
                 = (Inr [(''locked'', VBool False)], Some d', 1)
             \<and> find_one (d' ''student'') [Eq ''_id'' (VOid oid)]
                 = Some (AList.update ''locked_for_attendance'' (VBool False) student)
             \<and> d' ''attendancelog'' = d ''attendancelog''"
    if f: "find_one (d ''student'') [Eq ''_id'' (VOid oid)] = Some student"
  proof -
    obtain c where c: "update_one (d ''student'') [Eq ''_id'' (VOid oid)]
                         [(''locked_for_attendance'', VBool True)] = (c, 1)"
      and fc: "find_one c [Eq ''_id'' (VOid oid)]
                 = Some (AList.update ''locked_for_attendance'' (VBool True) student)"
      using update_one_lock [OF f] by blast
    show "\<exists>d'. manual_lock (Some d) sid = (Inr [(''locked'', VBool True)], Some d', 1)
             \<and> find_one (d' ''student'') [Eq ''_id'' (VOid oid)]
                 = Some (AList.update ''locked_for_attendance'' (VBool True) student)
             \<and> d' ''attendancelog'' = d ''attendancelog''"
      using assms c fc by (simp add: manual_lock_def collection_def)
    obtain c' where c': "update_one (d ''student'') [Eq ''_id'' (VOid oid)]
                         [(''locked_for_attendance'', VBool False)] = (c', 1)"
      and fc': "find_one c' [Eq ''_id'' (VOid oid)]
                 = Some (AList.update ''locked_for_attendance'' (VBool False) student)"
      using update_one_lock [OF f] by blast
    show "\<exists>d'. manual_unlock (Some d) sid
                 = (Inr [(''locked'', VBool False)], Some d', 1)
             \<and> find_one (d' ''student'') [Eq ''_id'' (VOid oid)]
                 = Some (AList.update ''locked_for_attendance'' (VBool False) student)
             \<and> d' ''attendancelog'' = d ''attendancelog''"
      using assms c' fc' by (simp add: manual_unlock_def collection_def)
  qed
  have stored: "map_of (AList.update ''locked_for_attendance'' (VBool b) student)
               ''locked_for_attendance'' = Some (VBool b)
          \<and> read_lock (AList.update ''locked_for_attendance'' (VBool b) student) = b"
    by (simp add: update_conv' read_lock_update)
  have missing: "snd (update_one (d ''student'') [Eq ''_id'' (VOid oid)]
                 [(''locked_for_attendance'', VBool b)]) = 0
          \<and> manual_lock (Some d) sid
              = (Inl (HTTPException 404 ''Student not found''), Some d, 1)
          \<and> manual_unlock (Some d) sid
              = (Inl (HTTPException 404 ''Student not found''), Some d, 1)"
    if "find_one (d ''student'') [Eq ''_id'' (VOid oid)] = None"
    using that assms
    by (simp add: manual_lock_def manual_unlock_def collection_def update_one_missing)
  from found found' stored missing show ?thesis by blast
qed

lemma manual_lock_sets_flag_demo:
  "ObjectId ''64b7f0c2a1d3e4f5a6b7c8d2'' = Inr (demo_oid 210)
   \<and> find_one (demo_db ''student'') [Eq ''_id'' (VOid (demo_oid 210))]
       = Some (demo_students ! 1)
   \<and> (\<exists>d'. manual_unlock (Some demo_db) ''64b7f0c2a1d3e4f5a6b7c8d2''
               = (Inr [(''locked'', VBool False)], Some d', 1)
          \<and> find_one (d' ''student'') [Eq ''_id'' (VOid (demo_oid 210))]
              = Some (AList.update ''locked_for_attendance'' (VBool False)
                        (demo_students ! 1)))
   \<and> ObjectId ''64b7f0c2a1d3e4f5a6b7c8d9'' = Inr (demo_oid 217)
   \<and> find_one (demo_db ''student'') [Eq ''_id'' (VOid (demo_oid 217))]
       = None
   \<and> manual_lock (Some demo_db) ''64b7f0c2a1d3e4f5a6b7c8d9''
       = (Inl (HTTPException 404 ''Student not found''), Some demo_db, 1)"
proof -
  note a = manual_lock_sets_flag
             [where d = demo_db and student = "demo_students ! 1" and b = False,
              OF demo_id2]
  note b = manual_lock_sets_flag
             [where d = demo_db and student = "demo_students ! 1" and b = True,
              OF demo_id9]
  from a demo_find2 have
    "\<exists>d'. manual_unlock (Some demo_db) ''64b7f0c2a1d3e4f5a6b7c8d2''
               = (Inr [(''locked'', VBool False)], Some d', 1)
          \<and> find_one (d' ''student'') [Eq ''_id'' (VOid (demo_oid 210))]
              = Some (AList.update ''locked_for_attendance'' (VBool False)
                        (demo_students ! 1))"
    by blast
  moreover from b demo_find9 have
    "manual_lock (Some demo_db) ''64b7f0c2a1d3e4f5a6b7c8d9''
       = (Inl (HTTPException 404 ''Student not found''), Some demo_db, 1)"
    by blast
  ultimately show ?thesis
    using demo_id2 demo_find2 demo_id9 demo_find9 by blast
qed

text \<open>
  C8. The claim asks for HTTP 404 whenever the identifier matches no record. For an
  identifier that \<^verbatim>\<open>ObjectId\<close> refuses, such as \<^verbatim>\<open>S1\<close>, the manual lock and
  the manual unlock never reach the update: both end with the \<^verbatim>\<open>InvalidId\<close> that
  \<^verbatim>\<open>ObjectId\<close> raises, which they do not catch, instead of the 404 they raise
  when the update matches nothing. Nothing is written.
\<close>

theorem manual_lock_malformed_id:
  "ObjectId ''S1'' = Inl InvalidId
   \<and> manual_lock (Some demo_db) ''S1'' = (Inl InvalidId, Some demo_db, 0)
   \<and> manual_unlock (Some demo_db) ''S1'' = (Inl InvalidId, Some demo_db, 0)
   \<and> fst (manual_lock (Some demo_db) ''S1'')
       \<noteq> Inl (HTTPException 404 ''Student not found'')
   \<and> fst (manual_unlock (Some demo_db) ''S1'')
       \<noteq> Inl (HTTPException 404 ''Student not found'')"
  by (simp add: manual_lock_def manual_unlock_def collection_def ObjectId_def)

text \<open>
  C2. Two calls in immediate succession for the same student that exists, the second on
  the database the first left and retrieving the same attendance records, return the
  same summary; the second call issues no update and leaves the database as the first
  left it. A call issues at most one update, and issues it exactly when the student is
  in the "engineering" category and the policy result differs from the stored lock.
\<close>

theorem repeated_summary_idempotent:
  assumes id: "ObjectId sid = Inr oid"
    and f: "find_one (d ''student'') [Eq ''_id'' (VOid oid)] = Some student"
    and c1: "attendance_summary (Some d) now sid days = (r1, db1, n1)"
    and c2: "attendance_summary db1 now' sid days = (r2, db2, n2)"
    and same: "logs (d ''attendancelog'') now' sid days
                 = logs (d ''attendancelog'') now sid days"
  shows "r2 = r1 \<and> n2 = 0 \<and> db2 = db1 \<and> n1 \<le> 1
     \<and> (\<exists>s. r1 = Inr s
          \<and> (n1 = 1 \<longleftrightarrow> get student ''category'' VNull = VStr ''engineering''
                          \<and> (percentage s < 75) \<noteq> read_lock student))"
proof -
  define ls where "ls = logs (d ''attendancelog'') now sid days"
  define S where "S = (\<lambda>pct b.
     \<lparr>total = int (length ls), present = int (length (filter is_present ls)),
      absent = int (length ls) - int (length (filter is_present ls)),
      percentage = pct, locked_for_attendance = b\<rparr>)"
  define eng where "eng \<longleftrightarrow> get student ''category'' VNull = VStr ''engineering''"
  obtain pct where p: "percentage_of (int (length (filter is_present ls)))
                         (int (length ls)) = Inr pct"
    and e: "attendance_summary (Some d) now sid days =
     (if eng \<and> (pct < 75) \<noteq> read_lock student
      then (Inr (S pct (pct < 75)),
            Some (d(''student'' :=
                    fst (update_one (d ''student'') [Eq ''_id'' (VOid oid)]
                           [(''locked_for_attendance'', VBool (pct < 75))]))), 1)
      else (Inr (S pct (read_lock student)), Some d, 0))"
    using attendance_summary_existing [where d = d and now = now and days = days, OF id f]
    unfolding ls_def S_def eng_def by blast
  show ?thesis
  proof (cases "eng \<and> (pct < 75) \<noteq> read_lock student")
    case False
    then have r1: "r1 = Inr (S pct (read_lock student))" and d1: "db1 = Some d"
      and n1: "n1 = 0"
      using e c1 by auto
    obtain pct' where p': "percentage_of (int (length (filter is_present ls)))
                         (int (length ls)) = Inr pct'"
      and e': "attendance_summary (Some d) now' sid days =
       (if eng \<and> (pct' < 75) \<noteq> read_lock student
        then (Inr (S pct' (pct' < 75)),
              Some (d(''student'' :=
                      fst (update_one (d ''student'') [Eq ''_id'' (VOid oid)]
                             [(''locked_for_attendance'', VBool (pct' < 75))]))), 1)
        else (Inr (S pct' (read_lock student)), Some d, 0))"
      using attendance_summary_existing
              [where d = d and now = now' and days = days, OF id f]
      unfolding ls_def S_def eng_def same by blast
    have "pct' = pct" using p p' by simp
    then have "r2 = r1 \<and> n2 = 0 \<and> db2 = db1"
      using e' c2 False r1 d1 by auto
    moreover have "percentage (S pct (read_lock student)) = pct"
      by (simp add: S_def)
    ultimately show ?thesis
      using r1 n1 False eng_def by auto
  next
    case True
    define d1 where "d1 = d(''student'' :=
                    fst (update_one (d ''student'') [Eq ''_id'' (VOid oid)]
                           [(''locked_for_attendance'', VBool (pct < 75))]))"
    define student' where
      "student' = AList.update ''locked_for_attendance'' (VBool (pct < 75)) student"
    from True have r1: "r1 = Inr (S pct (pct < 75))" and db1: "db1 = Some d1"
      and n1: "n1 = 1"
      using e c1 unfolding d1_def by auto
    have f': "find_one (d1 ''student'') [Eq ''_id'' (VOid oid)] = Some student'"
      using update_one_lock [OF f, of "VBool (pct < 75)"]
      unfolding d1_def student'_def by auto
    have al: "d1 ''attendancelog'' = d ''attendancelog''"
      by (simp add: d1_def)
    obtain pct' where p': "percentage_of (int (length (filter is_present ls)))
                         (int (length ls)) = Inr pct'"
      and e': "attendance_summary (Some d1) now' sid days =
       (if get student' ''category'' VNull = VStr ''engineering''
           \<and> (pct' < 75) \<noteq> read_lock student'
        then (Inr (S pct' (pct' < 75)),
              Some (d1(''student'' :=
                      fst (update_one (d1 ''student'') [Eq ''_id'' (VOid oid)]
                             [(''locked_for_attendance'', VBool (pct' < 75))]))), 1)
        else (Inr (S pct' (read_lock student')), Some d1, 0))"
      using attendance_summary_existing
              [where d = d1 and now = now' and days = days, OF id f']
      unfolding ls_def S_def al same by blast
    have eq: "pct' = pct" using p p' by simp
    have rl: "read_lock student' = (pct < 75)"
      by (simp add: student'_def read_lock_update)
    have "r2 = r1 \<and> n2 = 0 \<and> db2 = db1"
      using e' c2 r1 db1 eq rl by auto
    moreover have "percentage (S pct (pct < 75)) = pct"
      by (simp add: S_def)
    ultimately show ?thesis
      using r1 n1 True eng_def by auto
  qed
qed

theorem repeated_summary_idempotent_witness:
  "ObjectId ''64b7f0c2a1d3e4f5a6b7c8d1'' = Inr (demo_oid 209)
   \<and> find_one (demo_db ''student'') [Eq ''_id'' (VOid (demo_oid 209))]
       = Some (demo_students ! 0)
   \<and> fst (attendance_summary (Some demo_db) demo_now ''64b7f0c2a1d3e4f5a6b7c8d1'' 120)
       = Inr \<lparr>total = 10, present = 7, absent = 3, percentage = 70,
              locked_for_attendance = True\<rparr>
   \<and> snd (snd (attendance_summary (Some demo_db) demo_now
                 ''64b7f0c2a1d3e4f5a6b7c8d1'' 120)) = 1
   \<and> fst (attendance_summary
            (fst (snd (attendance_summary (Some demo_db) demo_now
                         ''64b7f0c2a1d3e4f5a6b7c8d1'' 120)))
            (demo_now + 1) ''64b7f0c2a1d3e4f5a6b7c8d1'' 120)
       = Inr \<lparr>total = 10, present = 7, absent = 3, percentage = 70,
              locked_for_attendance = True\<rparr>
   \<and> snd (attendance_summary
            (fst (snd (attendance_summary (Some demo_db) demo_now
                         ''64b7f0c2a1d3e4f5a6b7c8d1'' 120)))
            (demo_now + 1) ''64b7f0c2a1d3e4f5a6b7c8d1'' 120)
       = (fst (snd (attendance_summary (Some demo_db) demo_now
                         ''64b7f0c2a1d3e4f5a6b7c8d1'' 120)), 0)"
proof -
  have same: "logs (demo_db ''attendancelog'') (demo_now + 1) ''64b7f0c2a1d3e4f5a6b7c8d1'' 120
                = logs (demo_db ''attendancelog'') demo_now ''64b7f0c2a1d3e4f5a6b7c8d1'' 120"
    by (simp add: demo_defs eval_defs)
  obtain r2 db2 n2 where c2:
    "attendance_summary
       (Some (demo_db(''student'' :=
        [(''_id'', VOid (demo_oid 209)), (''user_id'', VStr ''u1''),
         (''category'', VStr ''engineering''), (''locked_for_attendance'', VBool True)]
        # tl demo_students)))
       (demo_now + 1) ''64b7f0c2a1d3e4f5a6b7c8d1'' 120 = (r2, db2, n2)"
    using prod_cases3 by blast
  from repeated_summary_idempotent [OF demo_id1 demo_find1 demo_s1 c2 same]
       demo_id1 demo_find1 demo_s1 c2
  show ?thesis by simp
qed

text \<open>The percentage of a summary is computed from its own counts.\<close>

lemma summary_percentage:
  assumes "attendance_summary db now sid days = (Inr s, db', n)"
  shows "percentage_of (present s) (total s) = Inr (percentage s)
         \<and> 0 \<le> present s \<and> present s \<le> total s"
  using assms
  by (auto simp: attendance_summary_def auto_lock_def Let_def
           split: sum.splits option.splits if_splits prod.splits)

lemma pct_2_3: "percentage_of 2 3 = Inr (float_round (6667 / 100))"
  by code_simp

lemma pct_23_160: "percentage_of 23 160 = Inr (float_round (1437 / 100))"
  by code_simp

lemma pct_large:
  "percentage_of 1582964211107 2171269749821 = Inr (float_round (7291 / 100))"
  by code_simp

lemma float_1437_1438: "float_round (1437 / 100) \<noteq> float_round (1438 / 100)"
  by code_simp

text \<open>
  C6, as stated, fails. With 23 records present out of 160 the exact percentage is
  14.375, which rounds to 14.38 (half to even, as Python's \<^verbatim>\<open>round\<close> does on
  the exact value, and half up alike); the handler returns the float 14.37, because the
  floating-point product \<^verbatim>\<open>(23 / 160) * 100\<close> falls just below 14.375. With very
  many records the result need not even be a nearest hundredth: 1582964211107 present
  out of 2171269749821 is just below 72.905 and gives 72.91.
\<close>

theorem percentage_tie_not_rounded:
  "percentage_of 23 160 = Inr (float_round (1437 / 100))
   \<and> (23 / 160 * 100 :: rat) = 14375 / 1000
   \<and> round_half_even (23 / 160 * 100 * 100) = 1438
   \<and> \<lfloor>23 / 160 * 100 * 100 + 1 / 2 :: rat\<rfloor> = 1438
   \<and> float_round (1437 / 100) \<noteq> float_round (1438 / 100)
   \<and> percentage_of 1582964211107 2171269749821 = Inr (float_round (7291 / 100))
   \<and> (1 / 2 :: rat) < \<bar>7291 - 10000 * 1582964211107 / 2171269749821\<bar>"
proof -
  have a: "(23 / 160 * 100 :: rat) = 14375 / 1000"
    by simp
  have b: "round_half_even (23 / 160 * 100 * 100) = 1438"
    by code_simp
  have c: "\<lfloor>23 / 160 * 100 * 100 + 1 / 2 :: rat\<rfloor> = 1438"
    by simp
  have d: "(1 / 2 :: rat) < \<bar>7291 - 10000 * 1582964211107 / 2171269749821\<bar>"
    by simp
  from pct_23_160 a b c float_1437_1438 pct_large d show ?thesis
    by blast
qed

text \<open>
  C6, amended. In every summary the handler returns with a total above zero and of at
  most \<open>10 ^ 11\<close> records, the percentage is the float nearest to \<open>k / 100\<close> for an
  integer \<open>k\<close> that is within one half of \<open>10000 * present / total\<close>: a two-decimal
  value nearest to the exact percentage, where at an exact tie either neighbour can
  result. 2 present out of 3 gives the float 66.67, and 7 out of 10 gives 70.0.
\<close>

theorem percentage_two_decimals:
  "(attendance_summary db now sid days = (Inr s, db', n)
      \<and> 0 < total s \<and> total s \<le> 10 ^ 11
    \<longrightarrow> (\<exists>k::int. percentage s = float_round (of_int k / 100)
            \<and> \<bar>of_int k - 10000 * of_int (present s) / of_int (total s)\<bar>
                \<le> (1 / 2 :: rat)))
   \<and> percentage_of 2 3 = Inr (float_round (6667 / 100))
   \<and> percentage_of 7 10 = Inr (float_round 70)
   \<and> float_round 70 = 70"
proof -
  have g: "\<exists>k::int. percentage s = float_round (of_int k / 100)
            \<and> \<bar>of_int k - 10000 * of_int (present s) / of_int (total s)\<bar>
                \<le> (1 / 2 :: rat)"
    if "attendance_summary db now sid days = (Inr s, db', n)"
      and "0 < total s" and "total s \<le> 10 ^ 11"
  proof -
    from that(1) have "percentage_of (present s) (total s) = Inr (percentage s)"
      and "0 \<le> present s" and "present s \<le> total s"
      using summary_percentage by blast+
    then show ?thesis
      using that(2,3) percentage_of_nearest by blast
  qed
  have s: "float_round 70 = 70"
    by code_simp
  from g pct_2_3 pct_7_10 s show ?thesis
    by auto
qed

theorem percentage_two_decimals_witness:
  "attendance_summary (Some demo_db) demo_now ''64b7f0c2a1d3e4f5a6b7c8d1'' 120 =
     (Inr \<lparr>total = 10, present = 7, absent = 3, percentage = 70,
           locked_for_attendance = True\<rparr>,
      Some (demo_db(''student'' :=
        [(''_id'', VOid (demo_oid 209)), (''user_id'', VStr ''u1''),
         (''category'', VStr ''engineering''), (''locked_for_attendance'', VBool True)]
        # tl demo_students)), 1)
   \<and> (0::int) < 10 \<and> (10::int) \<le> 10 ^ 11
   \<and> (\<exists>k::int. (70::rat) = float_round (of_int k / 100)
          \<and> \<bar>of_int k - 10000 * 7 / 10\<bar> \<le> (1 / 2 :: rat))"
  using percentage_two_decimals
          [where db = "Some demo_db" and now = demo_now
             and sid = "''64b7f0c2a1d3e4f5a6b7c8d1''" and days = 120
             and s = "\<lparr>total = 10, present = 7, absent = 3, percentage = 70,
                         locked_for_attendance = True\<rparr>"
             and n = 1]
        demo_s1
  by simp

end
